theory Spec2Isabelle
  imports Complex_Main
begin

section \<open>The jewellery viewer: data model\<close>

text \<open>
  The viewer is one React component, \<^verbatim>\<open>JewelleryViewer.tsx\<close>, whose state lives in
  \<^verbatim>\<open>useState\<close> cells and \<^verbatim>\<open>useRef\<close> slots and whose operations are event handlers and
  loader callbacks. Each handler and each callback runs to completion on the UI thread, so
  it is a function from the state before to the state after. JavaScript numbers are
  modelled as \<^typ>\<open>real\<close> (sizes, PBR parameters), colours as the 24-bit hexadecimal
  value, counts as \<^typ>\<open>nat\<close>.
\<close>

subsection \<open>Configuration\<close>

datatype MaterialType = Gold | Rosegold | Platinum | Custom
datatype CameraPreset = Front | Side | Top | Detail | Iso
datatype LightingPreset = Studio | Dramatic | Soft | Natural

record settings =
  s_color :: nat
  s_metalness :: real
  s_roughness :: real
  s_envMapIntensity :: real

text \<open>\<^verbatim>\<open>CONFIG.materials\<close>; the key \<^verbatim>\<open>custom\<close> is absent from the table.\<close>

definition CONFIG_gold :: settings where
  "CONFIG_gold =
     \<lparr>s_color = 0xFFD700, s_metalness = 0.9, s_roughness = 0.3, s_envMapIntensity = 0.8\<rparr>"

definition CONFIG_rosegold :: settings where
  "CONFIG_rosegold =
     \<lparr>s_color = 0xB76E79, s_metalness = 0.9, s_roughness = 0.3, s_envMapIntensity = 0.8\<rparr>"

definition CONFIG_platinum :: settings where
  "CONFIG_platinum =
     \<lparr>s_color = 0xffffff, s_metalness = 0.9, s_roughness = 0.3, s_envMapIntensity = 0.7\<rparr>"

fun CONFIG_materials :: "MaterialType \<Rightarrow> settings option" where
  "CONFIG_materials Gold = Some CONFIG_gold"
| "CONFIG_materials Rosegold = Some CONFIG_rosegold"
| "CONFIG_materials Platinum = Some CONFIG_platinum"
| "CONFIG_materials Custom = None"

fun CONFIG_hdriUrls :: "LightingPreset \<Rightarrow> string" where
  "CONFIG_hdriUrls Studio =
     ''https://dl.polyhaven.org/file/ph-assets/HDRIs/hdr/1k/brown_photostudio_02_1k.hdr''"
| "CONFIG_hdriUrls Dramatic =
     ''https://dl.polyhaven.org/file/ph-assets/HDRIs/hdr/1k/studio_small_03_1k.hdr''"
| "CONFIG_hdriUrls Soft =
     ''https://dl.polyhaven.org/file/ph-assets/HDRIs/hdr/1k/studio_small_05_1k.hdr''"
| "CONFIG_hdriUrls Natural =
     ''https://dl.polyhaven.org/file/ph-assets/HDRIs/hdr/1k/lebombo_1k.hdr''"

subsection \<open>Strings\<close>

text \<open>
  \<^verbatim>\<open>String.prototype.includes\<close> and \<^verbatim>\<open>toLowerCase\<close> on the characters that can matter
  for the needles the viewer searches for (Latin letters).
\<close>

fun startsWith :: "string \<Rightarrow> string \<Rightarrow> bool" where
  "startsWith s [] = True"
| "startsWith [] (c # cs) = False"
| "startsWith (d # ds) (c # cs) = (d = c \<and> startsWith ds cs)"

fun includes_str :: "string \<Rightarrow> string \<Rightarrow> bool" where
  "includes_str [] needle = (needle = [])"
| "includes_str (c # cs) needle = (startsWith (c # cs) needle \<or> includes_str cs needle)"

definition lowerChar :: "char \<Rightarrow> char" where
  "lowerChar c =
     (case map_of (zip ''ABCDEFGHIJKLMNOPQRSTUVWXYZ'' ''abcdefghijklmnopqrstuvwxyz'') c of
        None \<Rightarrow> c
      | Some l \<Rightarrow> l)"

definition toLowerCase :: "string \<Rightarrow> string" where
  "toLowerCase s = map lowerChar s"

subsection \<open>Vectors and boxes\<close>

datatype vec3 = Vector3 (vx: real) (vy: real) (vz: real)

text \<open>
  \<^verbatim>\<open>THREE.Box3\<close>. The empty box is the one \<^verbatim>\<open>makeEmpty\<close> leaves (minimum above maximum);
  \<^verbatim>\<open>getCenter\<close> and \<^verbatim>\<open>getSize\<close> return the zero vector for it.
\<close>

datatype box3 = EmptyBox | Box3 (bmin: vec3) (bmax: vec3)

fun union :: "box3 \<Rightarrow> box3 \<Rightarrow> box3" where
  "union EmptyBox b = b"
| "union a EmptyBox = a"
| "union (Box3 (Vector3 ax ay az) (Vector3 bx by bz)) (Box3 (Vector3 cx cy cz) (Vector3 dx dy dz)) =
     Box3 (Vector3 (min ax cx) (min ay cy) (min az cz)) (Vector3 (max bx dx) (max by dy) (max bz dz))"

fun getCenter :: "box3 \<Rightarrow> vec3" where
  "getCenter EmptyBox = Vector3 0 0 0"
| "getCenter (Box3 (Vector3 ax ay az) (Vector3 bx by bz)) =
     Vector3 ((ax + bx) * 0.5) ((ay + by) * 0.5) ((az + bz) * 0.5)"

fun getSize :: "box3 \<Rightarrow> vec3" where
  "getSize EmptyBox = Vector3 0 0 0"
| "getSize (Box3 (Vector3 ax ay az) (Vector3 bx by bz)) =
     Vector3 (bx - ax) (by - ay) (bz - az)"

text \<open>\<^verbatim>\<open>Math.max(size.x, size.y, size.z)\<close>.\<close>

definition maxDimOf :: "vec3 \<Rightarrow> real" where
  "maxDimOf sz = max (max (vx sz) (vy sz)) (vz sz)"

subsection \<open>Materials, geometries, objects\<close>

type_synonym texture = nat

datatype materialClass = MeshStandardMaterial | MeshPhysicalMaterial | MeshBasicMaterial

record material =
  matClass :: materialClass
  name :: string
  color :: nat
  metalness :: real
  roughness :: real
  envMapIntensity :: real
  envMap :: "texture option"
  needsUpdate :: bool

text \<open>
  \<^verbatim>\<open>material instanceof THREE.MeshStandardMaterial\<close>: the physical material is a subclass
  of the standard one, so the source's disjunction of the two tests is this test.
\<close>

definition isStandardOrPhysical :: "material \<Rightarrow> bool" where
  "isStandardOrPhysical m =
     (matClass m = MeshStandardMaterial \<or> matClass m = MeshPhysicalMaterial)"

definition isMeshStandardMaterial :: "material \<Rightarrow> bool" where
  "isMeshStandardMaterial m =
     (matClass m = MeshStandardMaterial \<or> matClass m = MeshPhysicalMaterial)"

text \<open>\<^verbatim>\<open>'envMapIntensity' in material\<close>: a property of every standard material.\<close>

definition has_envMapIntensity :: "material \<Rightarrow> bool" where
  "has_envMapIntensity m =
     (matClass m = MeshStandardMaterial \<or> matClass m = MeshPhysicalMaterial)"

text \<open>
  A buffer geometry as the viewer reads it: the vertex count
  (\<^verbatim>\<open>attributes.position.count\<close>), the index count when the geometry is indexed, and the
  bounding box in the geometry's own frame, which \<^verbatim>\<open>Box3.setFromObject\<close> transforms into
  world space.
\<close>

record geometry =
  positionCount :: nat
  indexCount :: "nat option"
  boundingBox :: box3

definition TorusGeometry :: "real \<Rightarrow> real \<Rightarrow> nat \<Rightarrow> nat \<Rightarrow> geometry" where
  "TorusGeometry radius tube radialSegments tubularSegments =
     \<lparr>positionCount = (radialSegments + 1) * (tubularSegments + 1),
      indexCount = Some (radialSegments * tubularSegments * 6),
      boundingBox = Box3 (Vector3 (- (radius + tube)) (- (radius + tube)) (- tube))
                         (Vector3 (radius + tube) (radius + tube) tube)\<rparr>"

definition OctahedronGeometry :: "real \<Rightarrow> nat \<Rightarrow> geometry" where
  "OctahedronGeometry radius detail =
     \<lparr>positionCount = 8 * (detail + 1) * (detail + 1) * 3,
      indexCount = None,
      boundingBox = Box3 (Vector3 (- radius) (- radius) (- radius))
                         (Vector3 radius radius radius)\<rparr>"

record mesh =
  geometry :: geometry
  meshMaterial :: "material option"
  castShadow :: bool
  receiveShadow :: bool

text \<open>
  \<^verbatim>\<open>THREE.Object3D\<close>: its position and scale (the rotation stays the identity, nothing in
  the viewer sets it), the mesh data when the object is a \<^verbatim>\<open>THREE.Mesh\<close>, and its
  children.
\<close>

datatype object3d =
  Object3D (position: vec3) (scale: vec3) (meshOf: "mesh option") (children: "object3d list")

text \<open>\<^verbatim>\<open>object.traverse\<close> with a callback that only acts on meshes and mutates them.\<close>

fun traverse :: "(mesh \<Rightarrow> mesh) \<Rightarrow> object3d \<Rightarrow> object3d" where
  "traverse f (Object3D p k m cs) = Object3D p k (map_option f m) (map (traverse f) cs)"

text \<open>The meshes a traversal visits, in its order (the object first, then its children).\<close>

fun meshes :: "object3d \<Rightarrow> mesh list" where
  "meshes (Object3D p k m cs) =
     (case m of None \<Rightarrow> [] | Some me \<Rightarrow> [me]) @ concat (map meshes cs)"

text \<open>
  World transforms without rotation: a translation and a scale per axis. \<open>compose\<close> is the
  product parent times local; \<open>applyMatrix4\<close> is \<^verbatim>\<open>Box3.applyMatrix4\<close>, the box around the
  transformed corners.
\<close>

type_synonym transform = "vec3 \<times> vec3"

definition identityT :: transform where
  "identityT = (Vector3 0 0 0, Vector3 1 1 1)"

fun compose :: "transform \<Rightarrow> transform \<Rightarrow> transform" where
  "compose (Vector3 tx ty tz, Vector3 kx ky kz) (Vector3 px py pz, Vector3 sx sy sz) =
     (Vector3 (tx + kx * px) (ty + ky * py) (tz + kz * pz), Vector3 (kx * sx) (ky * sy) (kz * sz))"

fun applyMatrix4 :: "transform \<Rightarrow> box3 \<Rightarrow> box3" where
  "applyMatrix4 T EmptyBox = EmptyBox"
| "applyMatrix4 (Vector3 tx ty tz, Vector3 kx ky kz) (Box3 (Vector3 ax ay az) (Vector3 bx by bz)) =
     Box3 (Vector3 (min (tx + kx * ax) (tx + kx * bx)) (min (ty + ky * ay) (ty + ky * by))
                   (min (tz + kz * az) (tz + kz * bz)))
          (Vector3 (max (tx + kx * ax) (tx + kx * bx)) (max (ty + ky * ay) (ty + ky * by))
                   (max (tz + kz * az) (tz + kz * bz)))"

text \<open>\<^verbatim>\<open>Box3.expandByObject\<close>: the world boxes of the meshes of a subtree.\<close>

fun worldBoxes :: "transform \<Rightarrow> object3d \<Rightarrow> box3 list" where
  "worldBoxes T (Object3D p k m cs) =
     (case m of None \<Rightarrow> [] | Some me \<Rightarrow> [applyMatrix4 (compose T (p, k)) (boundingBox (geometry me))])
     @ concat (map (worldBoxes (compose T (p, k))) cs)"

text \<open>\<^verbatim>\<open>new THREE.Box3().setFromObject(model)\<close> for a model whose parent is the scene.\<close>

definition setFromObject :: "object3d \<Rightarrow> box3" where
  "setFromObject obj = foldl union EmptyBox (worldBoxes identityT obj)"

section \<open>The viewer's state\<close>

text \<open>
  The scene's children list holds the model objects, by their identity in the store
  \<open>heap\<close>; the four lights added at mount are never meshes, are never removed and are not
  listed. \<^verbatim>\<open>scene.add\<close> detaches the object from its parent first and appends it;
  \<^verbatim>\<open>scene.remove\<close> drops it when it is a child.
\<close>

record scene =
  environment :: "texture option"
  background :: nat
  sceneChildren :: "nat list"

definition sceneAdd :: "nat \<Rightarrow> scene \<Rightarrow> scene" where
  "sceneAdd i sc = sc\<lparr>sceneChildren := remove1 i (sceneChildren sc) @ [i]\<rparr>"

definition sceneRemove :: "nat \<Rightarrow> scene \<Rightarrow> scene" where
  "sceneRemove i sc = sc\<lparr>sceneChildren := remove1 i (sceneChildren sc)\<rparr>"

record camera =
  cameraPosition :: vec3

record renderer =
  rWidth :: nat
  rHeight :: nat

record controls =
  target :: vec3
  minDistance :: real
  maxDistance :: real
  controlsAutoRotate :: bool

record modelInfo =
  vertices :: nat
  faces :: real
  materials :: nat

text \<open>What the browser keeps of the viewer's output: console entries (level and leading
  literal), alerts, rendered frames with the renderer's size at that moment, downloads.\<close>

datatype consoleEntry = ConsoleError string | ConsoleWarn string | ConsoleInfo string

record frame =
  viaComposer :: bool
  frameWidth :: nat
  frameHeight :: nat

datatype fullscreenCall = RequestFullscreen | ExitFullscreen

record viewer =
  loading :: bool
  autoRotate :: bool
  currentMaterial :: MaterialType
  customColor :: string
  showColorPicker :: bool
  cameraPreset :: CameraPreset
  lightingPreset :: LightingPreset
  isFullscreen :: bool
  showStats :: bool
  modelInfoState :: "modelInfo option"
  isCapturing :: bool
  sceneRef :: "scene option"
  cameraRef :: "camera option"
  rendererRef :: "renderer option"
  controlsRef :: "controls option"
  composerRef :: bool
  currentModelRef :: "nat option"
  defaultRingRef :: "nat option"
  envMapRef :: "texture option"
  heap :: "nat \<Rightarrow> object3d option"
  nextId :: nat
  fullscreenElement :: bool
  fullscreenCalls :: "fullscreenCall list"
  console :: "consoleEntry list"
  alerts :: "string list"
  frames :: "frame list"
  downloads :: "string list"

text \<open>The first effect, at mount, for a window of the given inner size; the flag says
  whether the post-processing composer could be constructed.\<close>

definition mount :: "nat \<Rightarrow> nat \<Rightarrow> bool \<Rightarrow> viewer" where
  "mount innerWidth innerHeight composerOk =
     \<lparr>loading = True, autoRotate = True, currentMaterial = Gold, customColor = ''#FFD700'',
      showColorPicker = False, cameraPreset = Front, lightingPreset = Studio,
      isFullscreen = False, showStats = False, modelInfoState = None, isCapturing = False,
      sceneRef = Some \<lparr>environment = None, background = 0x111111, sceneChildren = []\<rparr>,
      cameraRef = Some \<lparr>cameraPosition = Vector3 0 2 5\<rparr>,
      rendererRef = Some \<lparr>rWidth = innerWidth, rHeight = innerHeight\<rparr>,
      controlsRef = Some \<lparr>target = Vector3 0 0 0, minDistance = 2, maxDistance = 10,
                            controlsAutoRotate = True\<rparr>,
      composerRef = composerOk,
      currentModelRef = None, defaultRingRef = None, envMapRef = None,
      heap = (\<lambda>i. None), nextId = 0,
      fullscreenElement = False, fullscreenCalls = [],
      console = (if composerOk then []
                 else [ConsoleWarn ''Post-processing not available, using standard rendering'']),
      alerts = [], frames = [], downloads = []\<rparr>"

section \<open>Model manager\<close>

text \<open>The statistics loop shared by the three places that build a model. Every mesh
  geometry is taken to carry a position attribute.\<close>

definition facesOf :: "mesh \<Rightarrow> real" where
  "facesOf me =
     (case indexCount (geometry me) of
        Some n \<Rightarrow> real n / 3
      | None \<Rightarrow> real (positionCount (geometry me)) / 3)"

definition countStats :: "object3d \<Rightarrow> modelInfo" where
  "countStats obj =
     \<lparr>vertices = sum_list (map (\<lambda>me. positionCount (geometry me)) (meshes obj)),
      faces = sum_list (map facesOf (meshes obj)),
      materials = length (filter (\<lambda>me. meshMaterial me \<noteq> None) (meshes obj))\<rparr>"

subsection \<open>createDefaultRing\<close>

definition diamondMesh :: "texture option \<Rightarrow> object3d" where
  "diamondMesh env =
     Object3D (Vector3 0 1.1 0) (Vector3 1 1 1)
       (Some \<lparr>geometry = OctahedronGeometry 0.25 2,
              meshMaterial = Some \<lparr>matClass = MeshPhysicalMaterial, name = [], color = 0xffffff,
                metalness = 0, roughness = 0.05,
                envMapIntensity = (if env = None then 1 else 0.8),
                envMap = env, needsUpdate = False\<rparr>,
              castShadow = False, receiveShadow = False\<rparr>)
       []"

definition ringMesh :: "texture option \<Rightarrow> object3d" where
  "ringMesh env =
     Object3D (Vector3 0 0 0) (Vector3 1 1 1)
       (Some \<lparr>geometry = TorusGeometry 1 0.15 64 128,
              meshMaterial = Some \<lparr>matClass = MeshStandardMaterial, name = [],
                color = s_color CONFIG_gold, metalness = s_metalness CONFIG_gold,
                roughness = s_roughness CONFIG_gold,
                envMapIntensity = s_envMapIntensity CONFIG_gold,
                envMap = env, needsUpdate = False\<rparr>,
              castShadow = False, receiveShadow = False\<rparr>)
       [diamondMesh env]"

text \<open>The function receives the scene that \<open>sceneRef\<close> holds. The ring is a new object:
  it takes the next free identity of the store.\<close>

definition createDefaultRing :: "viewer \<Rightarrow> viewer" where
  "createDefaultRing s =
     (case sceneRef s of
        None \<Rightarrow> s
      | Some sc \<Rightarrow>
          let ring = ringMesh (envMapRef s); i = nextId s
          in s\<lparr>heap := (heap s)(i \<mapsto> ring), nextId := i + 1,
               sceneRef := Some (sceneAdd i sc),
               currentModelRef := Some i, defaultRingRef := Some i,
               modelInfoState := Some (countStats ring)\<rparr>)"

section \<open>Environment loader\<close>

text \<open>\<^verbatim>\<open>scene.traverse\<close> with a callback on meshes: every object attached to the scene.\<close>

definition sceneTraverse :: "(mesh \<Rightarrow> mesh) \<Rightarrow> viewer \<Rightarrow> viewer" where
  "sceneTraverse f s =
     (case sceneRef s of
        None \<Rightarrow> s
      | Some sc \<Rightarrow>
          s\<lparr>heap := (\<lambda>i. if i \<in> set (sceneChildren sc)
                          then map_option (traverse f) (heap s i) else heap s i)\<rparr>)"

definition updateEnvMap :: "texture \<Rightarrow> mesh \<Rightarrow> mesh" where
  "updateEnvMap tex me =
     (case meshMaterial me of
        None \<Rightarrow> me
      | Some m \<Rightarrow>
          if isStandardOrPhysical m
          then me\<lparr>meshMaterial := Some (m\<lparr>envMap := Some tex, needsUpdate := True\<rparr>)\<rparr>
          else me)"

text \<open>\<^verbatim>\<open>loadEnvironment\<close> starts a fetch of the preset's HDRI; the two functions below are
  its completion callbacks. The scene they close over is the one in \<open>sceneRef\<close>.\<close>

definition loadEnvironment :: "LightingPreset \<Rightarrow> string" where
  "loadEnvironment preset = CONFIG_hdriUrls preset"

definition loadEnvironment_onLoad :: "texture \<Rightarrow> viewer \<Rightarrow> viewer" where
  "loadEnvironment_onLoad tex s =
     (case sceneRef s of
        None \<Rightarrow> s
      | Some sc \<Rightarrow>
          let s1 = s\<lparr>sceneRef := Some (sc\<lparr>environment := Some tex, background := 0x1a1a1a\<rparr>),
                     envMapRef := Some tex\<rparr>;
              s2 = sceneTraverse (updateEnvMap tex) s1
          in if currentModelRef s2 = None
             then (createDefaultRing s2)\<lparr>loading := False\<rparr>
             else s2)"

definition loadEnvironment_onError :: "viewer \<Rightarrow> viewer" where
  "loadEnvironment_onError s =
     (let s1 = s\<lparr>console := console s @ [ConsoleError ''Error loading HDRI:'']\<rparr>
      in if currentModelRef s1 = None
         then (createDefaultRing s1)\<lparr>loading := False\<rparr>
         else s1)"

section \<open>Loading external models\<close>

fun vsub :: "vec3 \<Rightarrow> vec3 \<Rightarrow> vec3" where
  "vsub (Vector3 ax ay az) (Vector3 bx by bz) = Vector3 (ax - bx) (ay - by) (az - bz)"

fun vadd :: "vec3 \<Rightarrow> vec3 \<Rightarrow> vec3" where
  "vadd (Vector3 ax ay az) (Vector3 bx by bz) = Vector3 (ax + bx) (ay + by) (az + bz)"

text \<open>
  \<^verbatim>\<open>const scaleFactor = 2 / maxDim\<close>. A box without extent makes the source divide by
  zero, which in JavaScript is the IEEE infinity; the reals have no such value (HOL's
  \<open>2 / 0\<close> is \<open>0\<close>), so the model reports that case instead of continuing.
\<close>

datatype loadAbort = ScaleNotFinite

definition scaleFactorOf :: "real \<Rightarrow> loadAbort + real" where
  "scaleFactorOf maxDim = (if maxDim = 0 then Inl ScaleNotFinite else Inr (2 / maxDim))"

datatype request = NoRequest | SketchfabNotice | GLTFLoad string

subsection \<open>loadModelFromURL\<close>

definition loadModelFromURL :: "string \<Rightarrow> viewer \<Rightarrow> viewer \<times> request" where
  "loadModelFromURL url s =
     (if sceneRef s = None then (s, NoRequest)
      else
        let s1 = s\<lparr>loading := True\<rparr>
        in if includes_str url ''skfb.ly''
           then (s1\<lparr>console := console s1 @ [ConsoleWarn ''Sketchfab model loading:'']\<rparr>,
                 SketchfabNotice)
           else (s1, GLTFLoad url))"

text \<open>The timer of the short-link branch, 500 ms later.\<close>

definition sketchfabTimeout :: "viewer \<Rightarrow> viewer" where
  "sketchfabTimeout s =
     s\<lparr>loading := False,
       console := console s @ [ConsoleInfo ''To load this Sketchfab model, you need:'']\<rparr>"

text \<open>Auto-center and scale, as the URL loader writes it.\<close>

definition centerAndScaleURL :: "object3d \<Rightarrow> loadAbort + object3d" where
  "centerAndScaleURL model =
     (let box = setFromObject model;
          center = getCenter box;
          size = getSize box;
          maxDim = maxDimOf size
      in case scaleFactorOf maxDim of
           Inl e \<Rightarrow> Inl e
         | Inr scaleFactor \<Rightarrow>
             Inr (Object3D (vsub (position model) center)
                    (Vector3 scaleFactor scaleFactor scaleFactor)
                    (meshOf model) (children model)))"

definition prepareMeshURL :: "texture option \<Rightarrow> mesh \<Rightarrow> mesh" where
  "prepareMeshURL env me =
     (let me1 = me\<lparr>castShadow := False, receiveShadow := False\<rparr>
      in case meshMaterial me1 of
           None \<Rightarrow> me1
         | Some m \<Rightarrow>
             if isStandardOrPhysical m
             then (case env of
                     None \<Rightarrow> me1
                   | Some tex \<Rightarrow>
                       me1\<lparr>meshMaterial :=
                             Some (m\<lparr>envMap := Some tex, envMapIntensity := 0.8,
                                     needsUpdate := True\<rparr>)\<rparr>)
             else me1)"

text \<open>The success callback of the GLTF loader; \<open>gltf_scene\<close> is the parsed hierarchy, a
  new object.\<close>

definition loadModelFromURL_onLoad :: "object3d \<Rightarrow> viewer \<Rightarrow> loadAbort + viewer" where
  "loadModelFromURL_onLoad gltf_scene s =
     (case sceneRef s of
        None \<Rightarrow> Inr s
      | Some sc \<Rightarrow>
          let sc1 = (case currentModelRef s of
                       None \<Rightarrow> sc
                     | Some c \<Rightarrow> if Some c \<noteq> defaultRingRef s then sceneRemove c sc else sc)
          in case centerAndScaleURL gltf_scene of
               Inl e \<Rightarrow> Inl e
             | Inr model1 \<Rightarrow>
                 let model = traverse (prepareMeshURL (envMapRef s)) model1;
                     i = nextId s
                 in Inr (s\<lparr>heap := (heap s)(i \<mapsto> model), nextId := i + 1,
                           sceneRef := Some (sceneAdd i sc1),
                           currentModelRef := Some i,
                           modelInfoState := Some (countStats model),
                           loading := False,
                           cameraPreset := Front\<rparr>))"

definition loadModelFromURL_onError :: "viewer \<Rightarrow> viewer" where
  "loadModelFromURL_onError s =
     s\<lparr>console := console s @ [ConsoleError ''Error loading model:''], loading := False\<rparr>"

subsection \<open>loadUserGLB\<close>

definition loadUserGLB :: "viewer \<Rightarrow> viewer" where
  "loadUserGLB s = (if sceneRef s = None then s else s\<lparr>loading := True\<rparr>)"

text \<open>Auto-center and scale, as the file loader writes it.\<close>

definition centerAndScaleGLB :: "object3d \<Rightarrow> loadAbort + object3d" where
  "centerAndScaleGLB model =
     (let box = setFromObject model;
          center = getCenter box;
          size = getSize box;
          maxDim = maxDimOf size
      in case scaleFactorOf maxDim of
           Inl e \<Rightarrow> Inl e
         | Inr scaleFactor \<Rightarrow>
             Inr (Object3D (vadd (position model) (vsub (position model) center))
                    (Vector3 scaleFactor scaleFactor scaleFactor)
                    (meshOf model) (children model)))"

definition prepareMeshGLB :: "texture option \<Rightarrow> mesh \<Rightarrow> mesh" where
  "prepareMeshGLB env me =
     (let me1 = me\<lparr>castShadow := True, receiveShadow := True\<rparr>
      in case meshMaterial me1 of
           None \<Rightarrow> me1
         | Some m \<Rightarrow>
             if isStandardOrPhysical m
             then (case env of
                     None \<Rightarrow> me1
                   | Some tex \<Rightarrow>
                       me1\<lparr>meshMaterial :=
                             Some (m\<lparr>envMap := Some tex, envMapIntensity := 1.0,
                                     needsUpdate := True\<rparr>)\<rparr>)
             else me1)"

definition loadUserGLB_onLoad :: "object3d \<Rightarrow> viewer \<Rightarrow> loadAbort + viewer" where
  "loadUserGLB_onLoad gltf_scene s =
     (case sceneRef s of
        None \<Rightarrow> Inr s
      | Some sc \<Rightarrow>
          let sc1 = (case currentModelRef s of
                       None \<Rightarrow> sc
                     | Some c \<Rightarrow> sceneRemove c sc)
          in case centerAndScaleGLB gltf_scene of
               Inl e \<Rightarrow> Inl e
             | Inr model1 \<Rightarrow>
                 let model = traverse (prepareMeshGLB (envMapRef s)) model1;
                     i = nextId s
                 in Inr (s\<lparr>heap := (heap s)(i \<mapsto> model), nextId := i + 1,
                           sceneRef := Some (sceneAdd i sc1),
                           currentModelRef := Some i,
                           modelInfoState := Some (countStats model),
                           loading := False,
                           cameraPreset := Front\<rparr>))"

definition loadUserGLB_onError :: "viewer \<Rightarrow> viewer" where
  "loadUserGLB_onError s =
     s\<lparr>console := console s @ [ConsoleError []],
       alerts := alerts s @ [''Error parsing GLB file''],
       loading := False\<rparr>"

subsection \<open>resetScene\<close>

definition resetScene :: "viewer \<Rightarrow> viewer" where
  "resetScene s =
     (case sceneRef s of
        None \<Rightarrow> s
      | Some sc \<Rightarrow>
          (case currentModelRef s of
             None \<Rightarrow> s
           | Some c \<Rightarrow>
               if Some c \<noteq> defaultRingRef s
               then (case defaultRingRef s of
                       None \<Rightarrow> s\<lparr>sceneRef := Some (sceneRemove c sc)\<rparr>
                     | Some d \<Rightarrow>
                         s\<lparr>sceneRef := Some (sceneAdd d (sceneRemove c sc)),
                           currentModelRef := Some d\<rparr>)
               else s))"

section \<open>Materials\<close>

subsection \<open>Hexadecimal colours\<close>

definition hexDigitValue :: "char \<Rightarrow> nat option" where
  "hexDigitValue c =
     (let n = (of_char c :: nat)
      in if 48 \<le> n \<and> n \<le> 57 then Some (n - 48)
         else if 65 \<le> n \<and> n \<le> 70 then Some (n - 55)
         else if 97 \<le> n \<and> n \<le> 102 then Some (n - 87)
         else None)"

definition isWhiteSpace :: "char \<Rightarrow> bool" where
  "isWhiteSpace c = ((of_char c :: nat) \<in> {9, 10, 11, 12, 13, 32})"

text \<open>
  \<^verbatim>\<open>parseInt(str, 16)\<close>: leading white space, a sign, an optional \<^verbatim>\<open>0x\<close>, then the
  longest run of hexadecimal digits; \<open>None\<close> is NaN. The value is the mathematical one,
  which is the JavaScript number for up to 13 digits.
\<close>

definition parseInt16 :: "string \<Rightarrow> int option" where
  "parseInt16 str =
     (let s1 = dropWhile isWhiteSpace str;
          negative = startsWith s1 ''-'';
          s2 = (if startsWith s1 ''-'' \<or> startsWith s1 ''+'' then drop 1 s1 else s1);
          s3 = (if startsWith s2 ''0x'' \<or> startsWith s2 ''0X'' then drop 2 s2 else s2);
          ds = takeWhile (\<lambda>c. hexDigitValue c \<noteq> None) s3;
          n = foldl (\<lambda>a c. 16 * a + (case hexDigitValue c of None \<Rightarrow> 0 | Some v \<Rightarrow> v)) 0 ds
      in if ds = [] then None
         else Some (if negative then - int n else int n))"

text \<open>\<^verbatim>\<open>color.setHex(hex)\<close> keeps the low 24 bits of the number; NaN gives black.\<close>

definition setHex :: "int option \<Rightarrow> nat" where
  "setHex hex = (case hex of None \<Rightarrow> 0 | Some h \<Rightarrow> nat (h mod 0x1000000))"

text \<open>The test \<^verbatim>\<open>/^#[0-9A-F]{6}$/i\<close> of the custom colour text field.\<close>

definition isHexColor :: "string \<Rightarrow> bool" where
  "isHexColor v =
     (case v of
        [] \<Rightarrow> False
      | c # rest \<Rightarrow> c = CHR ''#'' \<and> length rest = 6 \<and> list_all (\<lambda>d. hexDigitValue d \<noteq> None) rest)"

subsection \<open>setMaterial\<close>

text \<open>The procedural ring: only the ring's own material, when the object is a mesh with a
  standard material.\<close>

definition applyToRing :: "settings \<Rightarrow> object3d \<Rightarrow> object3d" where
  "applyToRing st model =
     (case meshOf model of
        None \<Rightarrow> model
      | Some me \<Rightarrow>
          (case meshMaterial me of
             None \<Rightarrow> model
           | Some m \<Rightarrow>
               if isMeshStandardMaterial m
               then Object3D (position model) (scale model)
                      (Some (me\<lparr>meshMaterial :=
                               Some (m\<lparr>color := s_color st, metalness := s_metalness st,
                                       roughness := s_roughness st,
                                       envMapIntensity := s_envMapIntensity st\<rparr>)\<rparr>))
                      (children model)
               else model))"

text \<open>A loaded model: the test on the material and the two branches it selects.\<close>

definition isMetalLike :: "material \<Rightarrow> bool" where
  "isMetalLike m =
     (includes_str (toLowerCase (name m)) ''metal'' \<or>
      includes_str (toLowerCase (name m)) ''gold'' \<or>
      metalness m > 0.5)"

definition metalBranch :: "settings \<Rightarrow> material \<Rightarrow> material" where
  "metalBranch st m =
     (let m1 = m\<lparr>color := s_color st, metalness := s_metalness st, roughness := s_roughness st\<rparr>
      in if has_envMapIntensity m1 then m1\<lparr>envMapIntensity := s_envMapIntensity st\<rparr> else m1)"

definition otherBranch :: "settings \<Rightarrow> material \<Rightarrow> material" where
  "otherBranch st m =
     m\<lparr>color := s_color st, metalness := s_metalness st, roughness := s_roughness st\<rparr>"

definition applyToMaterial :: "settings \<Rightarrow> texture option \<Rightarrow> material \<Rightarrow> material" where
  "applyToMaterial st env m =
     (let m1 = (if isMetalLike m then metalBranch st m else otherBranch st m)
      in case env of
           None \<Rightarrow> m1
         | Some tex \<Rightarrow> m1\<lparr>envMap := Some tex, needsUpdate := True\<rparr>)"

definition applyToMesh :: "settings \<Rightarrow> texture option \<Rightarrow> mesh \<Rightarrow> mesh" where
  "applyToMesh st env me =
     (case meshMaterial me of
        None \<Rightarrow> me
      | Some m \<Rightarrow>
          if isStandardOrPhysical m
          then me\<lparr>meshMaterial := Some (applyToMaterial st env m)\<rparr>
          else me)"

text \<open>The optional argument \<^verbatim>\<open>color\<close> is truthy when it is a non-empty string.\<close>

definition truthy :: "string option \<Rightarrow> bool" where
  "truthy c = (c \<noteq> None \<and> c \<noteq> Some [])"

definition colorHexOf :: "MaterialType \<Rightarrow> string option \<Rightarrow> nat" where
  "colorHexOf type col =
     (case col of
        Some c \<Rightarrow>
          if type = Custom \<and> truthy col then setHex (parseInt16 (remove1 CHR ''#'' c))
          else (case CONFIG_materials type of
                  None \<Rightarrow> 0xFFD700
                | Some cfg \<Rightarrow> if s_color cfg = 0 then 0xFFD700 else s_color cfg)
      | None \<Rightarrow>
          (case CONFIG_materials type of
             None \<Rightarrow> 0xFFD700
           | Some cfg \<Rightarrow> if s_color cfg = 0 then 0xFFD700 else s_color cfg))"

definition settingsOf :: "MaterialType \<Rightarrow> string option \<Rightarrow> settings option" where
  "settingsOf type col =
     (if type = Custom
      then Some \<lparr>s_color = colorHexOf type col, s_metalness = 0.9, s_roughness = 0.3,
                 s_envMapIntensity = 0.8\<rparr>
      else CONFIG_materials type)"

definition setMaterial :: "MaterialType \<Rightarrow> string option \<Rightarrow> viewer \<Rightarrow> viewer" where
  "setMaterial type col s =
     (let s1 = s\<lparr>currentMaterial := type\<rparr>;
          s2 = (case col of
                  None \<Rightarrow> s1
                | Some c \<Rightarrow> if type = Custom \<and> truthy col then s1\<lparr>customColor := c\<rparr> else s1)
      in case settingsOf type col of
           None \<Rightarrow> s2
         | Some st \<Rightarrow>
             (case currentModelRef s2 of
                None \<Rightarrow> s2
              | Some i \<Rightarrow>
                  if Some i = defaultRingRef s2
                  then s2\<lparr>heap := (heap s2)(i := map_option (applyToRing st) (heap s2 i))\<rparr>
                  else s2\<lparr>heap := (heap s2)(i := map_option
                                      (traverse (applyToMesh st (envMapRef s2))) (heap s2 i))\<rparr>))"

subsection \<open>The custom colour inputs\<close>

definition onChangeColorPicker :: "string \<Rightarrow> viewer \<Rightarrow> viewer" where
  "onChangeColorPicker v s = setMaterial Custom (Some v) (s\<lparr>customColor := v\<rparr>)"

definition onChangeColorText :: "string \<Rightarrow> viewer \<Rightarrow> viewer" where
  "onChangeColorText v s =
     (if isHexColor v then setMaterial Custom (Some v) (s\<lparr>customColor := v\<rparr>) else s)"

section \<open>Camera controller\<close>

text \<open>
  \<^verbatim>\<open>controls.update()\<close> belongs to the orbit controls of the rendering library: it moves
  the camera from the controls' state (damping, auto-rotation, distance limits). The
  viewer's functions take it as a parameter.
\<close>

type_synonym orbitUpdate = "camera \<Rightarrow> controls \<Rightarrow> camera \<times> controls"

text \<open>The effect that runs when the preset changes.\<close>

definition cameraPresetEffect :: "orbitUpdate \<Rightarrow> viewer \<Rightarrow> viewer" where
  "cameraPresetEffect update s =
     (case cameraRef s of
        None \<Rightarrow> s
      | Some cam \<Rightarrow>
      (case controlsRef s of
        None \<Rightarrow> s
      | Some ctl \<Rightarrow>
      (case currentModelRef s of
        None \<Rightarrow> s
      | Some i \<Rightarrow>
      (case heap s i of
        None \<Rightarrow> s
      | Some model \<Rightarrow>
          let box = setFromObject model;
              center = getCenter box;
              size = getSize box;
              maxDim = maxDimOf size;
              (cam1, ctl1) =
                (case cameraPreset s of
                   Front \<Rightarrow>
                     (cam\<lparr>cameraPosition :=
                            Vector3 (vx center) (vy center) (vz center + maxDim * 1.5)\<rparr>,
                      ctl\<lparr>target := center\<rparr>)
                 | Side \<Rightarrow>
                     (cam\<lparr>cameraPosition :=
                            Vector3 (vx center + maxDim * 1.5) (vy center) (vz center)\<rparr>,
                      ctl\<lparr>target := center\<rparr>)
                 | Top \<Rightarrow>
                     (cam\<lparr>cameraPosition :=
                            Vector3 (vx center) (vy center + maxDim * 1.5) (vz center)\<rparr>,
                      ctl\<lparr>target := center\<rparr>)
                 | Detail \<Rightarrow>
                     (cam\<lparr>cameraPosition :=
                            Vector3 (vx center + maxDim * 0.8) (vy center + maxDim * 0.5)
                                    (vz center + maxDim * 0.8)\<rparr>,
                      ctl\<lparr>target := center, minDistance := maxDim * 0.3\<rparr>)
                 | Iso \<Rightarrow>
                     (cam\<lparr>cameraPosition :=
                            Vector3 (vx center + maxDim) (vy center + maxDim * 0.7)
                                    (vz center + maxDim)\<rparr>,
                      ctl\<lparr>target := center\<rparr>));
              (cam2, ctl2) = update cam1 ctl1
          in s\<lparr>cameraRef := Some cam2, controlsRef := Some ctl2\<rparr>))))"

definition zoomToFit :: "orbitUpdate \<Rightarrow> viewer \<Rightarrow> viewer" where
  "zoomToFit update s =
     (case currentModelRef s of
        None \<Rightarrow> s
      | Some i \<Rightarrow>
      (case cameraRef s of
        None \<Rightarrow> s
      | Some camera \<Rightarrow>
      (case controlsRef s of
        None \<Rightarrow> s
      | Some ctl \<Rightarrow>
      (case heap s i of
        None \<Rightarrow> s
      | Some model \<Rightarrow>
          let box = setFromObject model;
              center = getCenter box;
              size = getSize box;
              maxDim = maxDimOf size;
              ctl1 = ctl\<lparr>target := center\<rparr>;
              cam1 = camera\<lparr>cameraPosition :=
                              Vector3 (vx center) (vy center) (vz center + maxDim * 1.5)\<rparr>;
              (cam2, ctl2) = update cam1 ctl1
          in s\<lparr>cameraRef := Some cam2, controlsRef := Some ctl2\<rparr>))))"

section \<open>Screenshot capture\<close>


text \<open>
  \<^verbatim>\<open>captureScreenshot\<close> runs up to the call of \<^verbatim>\<open>toBlob\<close> and returns the original size
  its callback closes over (\<open>None\<close> when there is no renderer). The callback runs later,
  with or without a blob.
\<close>

definition renderFrame :: "viewer \<Rightarrow> viewer" where
  "renderFrame s =
     (case rendererRef s of
        None \<Rightarrow> s
      | Some r \<Rightarrow>
          if composerRef s
          then s\<lparr>frames := frames s @
                   [\<lparr>viaComposer = True, frameWidth = rWidth r, frameHeight = rHeight r\<rparr>]\<rparr>
          else if sceneRef s \<noteq> None \<and> cameraRef s \<noteq> None
          then s\<lparr>frames := frames s @
                   [\<lparr>viaComposer = False, frameWidth = rWidth r, frameHeight = rHeight r\<rparr>]\<rparr>
          else s)"

definition captureScreenshot :: "viewer \<Rightarrow> viewer \<times> (nat \<times> nat) option" where
  "captureScreenshot s =
     (case rendererRef s of
        None \<Rightarrow> (s, None)
      | Some r \<Rightarrow>
          let s1 = s\<lparr>isCapturing := True\<rparr>;
              originalSize = (rWidth r, rHeight r);
              scale = 2;
              s2 = s1\<lparr>rendererRef := Some (r\<lparr>rWidth := fst originalSize * scale,
                                               rHeight := snd originalSize * scale\<rparr>)\<rparr>
          in (renderFrame s2, Some originalSize))"


section \<open>Keyboard shortcuts\<close>

definition toggleFullscreen :: "viewer \<Rightarrow> viewer" where
  "toggleFullscreen s =
     (if \<not> fullscreenElement s
      then s\<lparr>fullscreenCalls := fullscreenCalls s @ [RequestFullscreen], isFullscreen := True\<rparr>
      else s\<lparr>fullscreenCalls := fullscreenCalls s @ [ExitFullscreen], isFullscreen := False\<rparr>)"

text \<open>The effect that copies the auto-rotate flag into the controls.\<close>

definition autoRotateEffect :: "viewer \<Rightarrow> viewer" where
  "autoRotateEffect s =
     s\<lparr>controlsRef :=
         map_option (\<lambda>c. c\<lparr>controlsAutoRotate := autoRotate s\<rparr>) (controlsRef s)\<rparr>"

record keyboardEvent =
  targetIsInput :: bool
  key :: string

text \<open>The handler returns the state and, when it started a capture, the size that
  capture's callback will restore.\<close>

definition handleKeyPress :: "keyboardEvent \<Rightarrow> viewer \<Rightarrow> viewer \<times> (nat \<times> nat) option" where
  "handleKeyPress e s =
     (if targetIsInput e then (s, None)
      else
        let k = toLowerCase (key e)
        in if k = ''r'' then (s\<lparr>autoRotate := \<not> autoRotate s\<rparr>, None)
           else if k = ''f'' then (toggleFullscreen s, None)
           else if k = ''s'' then (s\<lparr>showStats := \<not> showStats s\<rparr>, None)
           else if k = ''c'' then captureScreenshot s
           else if k = ''1'' then (s\<lparr>cameraPreset := Front\<rparr>, None)
           else if k = ''2'' then (s\<lparr>cameraPreset := Side\<rparr>, None)
           else if k = ''3'' then (s\<lparr>cameraPreset := Top\<rparr>, None)
           else if k = ''4'' then (s\<lparr>cameraPreset := Detail\<rparr>, None)
           else if k = ''5'' then (s\<lparr>cameraPreset := Iso\<rparr>, None)
           else (s, None))"

section \<open>Operation sequences\<close>

text \<open>
  The operations that attach and detach models, as they complete: an HDRI load succeeding
  or failing, a model arriving from a URL, a model parsed from a dropped file, a reset.
\<close>

datatype event =
    EnvironmentLoaded texture
  | EnvironmentFailed
  | ModelLoadedFromURL object3d
  | UserGLBParsed object3d
  | ResetScene

fun step :: "event \<Rightarrow> viewer \<Rightarrow> loadAbort + viewer" where
  "step (EnvironmentLoaded tex) s = Inr (loadEnvironment_onLoad tex s)"
| "step EnvironmentFailed s = Inr (loadEnvironment_onError s)"
| "step (ModelLoadedFromURL g) s = loadModelFromURL_onLoad g s"
| "step (UserGLBParsed g) s = loadUserGLB_onLoad g s"
| "step ResetScene s = Inr (resetScene s)"

fun run :: "event list \<Rightarrow> viewer \<Rightarrow> loadAbort + viewer" where
  "run [] s = Inr s"
| "run (e # es) s = (case step e s of Inl a \<Rightarrow> Inl a | Inr s' \<Rightarrow> run es s')"

text \<open>The model objects attached to the scene.\<close>

definition attached :: "viewer \<Rightarrow> nat list" where
  "attached s = (case sceneRef s of None \<Rightarrow> [] | Some sc \<Rightarrow> sceneChildren sc)"



text \<open>The material of the procedural ring's own mesh.\<close>

definition ringMaterial :: "viewer \<Rightarrow> material option" where
  "ringMaterial s =
     (case defaultRingRef s of
        None \<Rightarrow> None
      | Some d \<Rightarrow>
          (case heap s d of
             None \<Rightarrow> None
           | Some ring \<Rightarrow>
               (case meshOf ring of None \<Rightarrow> None | Some me \<Rightarrow> meshMaterial me)))"




text \<open>The centre and the largest dimension of the current model's bounding box.\<close>

definition currentBox :: "viewer \<Rightarrow> (vec3 \<times> real) option" where
  "currentBox s =
     (case currentModelRef s of
        None \<Rightarrow> None
      | Some i \<Rightarrow>
          map_option (\<lambda>m. (getCenter (setFromObject m), maxDimOf (getSize (setFromObject m))))
            (heap s i))"

section \<open>Sample inputs\<close>

text \<open>A parsed hierarchy as the GLTF loader hands it over (position zero, scale one): one
  mesh whose geometry spans the box from the origin to \<open>(4, 4, 4)\<close>.\<close>

definition sampleMaterial :: "string \<Rightarrow> material" where
  "sampleMaterial n =
     \<lparr>matClass = MeshStandardMaterial, name = n, color = 0x808080, metalness = 0.2,
      roughness = 0.6, envMapIntensity = 1, envMap = None, needsUpdate = False\<rparr>"

definition sampleMesh :: "string \<Rightarrow> object3d" where
  "sampleMesh n =
     Object3D (Vector3 0 0 0) (Vector3 1 1 1)
       (Some \<lparr>geometry = \<lparr>positionCount = 8, indexCount = Some 36,
                           boundingBox = Box3 (Vector3 0 0 0) (Vector3 4 4 4)\<rparr>,
              meshMaterial = Some (sampleMaterial n),
              castShadow = False, receiveShadow = False\<rparr>)
       []"

definition sampleModel :: object3d where
  "sampleModel =
     Object3D (Vector3 0 0 0) (Vector3 1 1 1) None [sampleMesh ''Gold_Band'', sampleMesh ''Stone'']"

text \<open>The viewer once the first HDRI load has failed: the ring is the current model.\<close>

definition ringState :: viewer where
  "ringState = loadEnvironment_onError (mount 800 600 True)"

text \<open>The viewer after the sample model arrived from a URL, and after it was parsed from
  a dropped file, each on top of \<open>ringState\<close>.\<close>

definition urlLoaded :: viewer where
  "urlLoaded =
     (case loadModelFromURL_onLoad sampleModel ringState of Inl e \<Rightarrow> ringState | Inr s \<Rightarrow> s)"

definition fileLoaded :: viewer where
  "fileLoaded =
     (case loadUserGLB_onLoad sampleModel ringState of Inl e \<Rightarrow> ringState | Inr s \<Rightarrow> s)"

section \<open>The material update in the specification's words\<close>


section \<open>Shared lemmas\<close>



lemma ringState_fields:
  "sceneRef ringState =
     Some \<lparr>environment = None, background = 0x111111, sceneChildren = [0]\<rparr>"
  "currentModelRef ringState = Some 0"
  "defaultRingRef ringState = Some 0"
  "heap ringState 0 = Some (ringMesh None)"
  "nextId ringState = 1"
  "envMapRef ringState = None"
  "rendererRef ringState = Some \<lparr>rWidth = 800, rHeight = 600\<rparr>"
  "cameraRef ringState = Some \<lparr>cameraPosition = Vector3 0 2 5\<rparr>"
  "controlsRef ringState =
     Some \<lparr>target = Vector3 0 0 0, minDistance = 2, maxDistance = 10, controlsAutoRotate = True\<rparr>"
  "composerRef ringState = True"
  "frames ringState = []"
  "downloads ringState = []"
  "cameraPreset ringState = Front"
  by (simp_all add: ringState_def loadEnvironment_onError_def mount_def createDefaultRing_def
      sceneAdd_def Let_def)

lemma ringState_material:
  "ringMaterial ringState =
     Some \<lparr>matClass = MeshStandardMaterial, name = [], color = 0xFFD700, metalness = 0.9,
            roughness = 0.3, envMapIntensity = 0.8, envMap = None, needsUpdate = False\<rparr>"
  by (simp add: ringMaterial_def ringState_fields ringMesh_def CONFIG_gold_def)

text \<open>Applying settings while the ring is the current model rewrites four fields of the
  ring's material and nothing else of it.\<close>

lemma setMaterial_ring:
  assumes "currentModelRef s = defaultRingRef s"
    and "ringMaterial s = Some m"
    and "isMeshStandardMaterial m"
    and "settingsOf type col = Some st"
  shows "ringMaterial (setMaterial type col s) =
           Some (m\<lparr>color := s_color st, metalness := s_metalness st,
                   roughness := s_roughness st, envMapIntensity := s_envMapIntensity st\<rparr>)"
  using assms
  by (auto simp: setMaterial_def ringMaterial_def applyToRing_def Let_def
      split: option.splits)

lemma settings_1A2B3C:
  "settingsOf Custom (Some ''#1A2B3C'') =
     Some \<lparr>s_color = 0x1A2B3C, s_metalness = 0.9, s_roughness = 0.3, s_envMapIntensity = 0.8\<rparr>"
  by (simp add: settingsOf_def colorHexOf_def truthy_def setHex_def parseInt16_def
      hexDigitValue_def isWhiteSpace_def)

section \<open>Keyboard shortcuts while typing\<close>

text \<open>
  Claim C10. When the target of a key event is a text input element, the shortcut handler
  returns without effect: the state is the one before (auto-rotate, fullscreen, statistics
  flag and camera preset included) and no capture is started, whatever the key.
\<close>

theorem keypress_in_input_ignored:
  assumes "targetIsInput e"
  shows "handleKeyPress e s = (s, None)"
  using assms by (simp add: handleKeyPress_def)

text \<open>At the key \<open>c\<close>: ignored in an input, a capture elsewhere.\<close>

theorem keypress_in_input_ignored_witness:
  "targetIsInput \<lparr>targetIsInput = True, key = ''c''\<rparr> \<and>
   handleKeyPress \<lparr>targetIsInput = True, key = ''c''\<rparr> ringState = (ringState, None) \<and>
   isCapturing (fst (handleKeyPress \<lparr>targetIsInput = False, key = ''C''\<rparr> ringState))"
proof -
  have a: "targetIsInput \<lparr>targetIsInput = True, key = ''c''\<rparr>" by simp
  have b: "isCapturing (fst (handleKeyPress \<lparr>targetIsInput = False, key = ''C''\<rparr> ringState))"
    by (simp add: handleKeyPress_def toLowerCase_def lowerChar_def captureScreenshot_def
        ringState_fields renderFrame_def Let_def)
  from a b keypress_in_input_ignored [OF a, of ringState] show ?thesis by simp
qed

section \<open>Zoom to fit\<close>

text \<open>
  Claim C9. Zoom-to-fit computes the camera position and the orbit target that the front
  preset computes for the same model: the position is the centre of the bounding box moved
  by 1.5 times the largest dimension along +z, the target is the centre. It leaves the
  recorded camera preset as it was.
\<close>

theorem zoomToFit_same_as_front:
  "zoomToFit update s =
     (cameraPresetEffect update (s\<lparr>cameraPreset := Front\<rparr>))\<lparr>cameraPreset := cameraPreset s\<rparr> \<and>
   cameraPreset (zoomToFit update s) = cameraPreset s \<and>
   (\<forall>cam ctl i model.
      cameraRef s = Some cam \<and> controlsRef s = Some ctl \<and> currentModelRef s = Some i \<and>
      heap s i = Some model \<longrightarrow>
      (let center = getCenter (setFromObject model);
           maxDim = maxDimOf (getSize (setFromObject model));
           framed = update
                      (cam\<lparr>cameraPosition :=
                             Vector3 (vx center) (vy center) (vz center + maxDim * 1.5)\<rparr>)
                      (ctl\<lparr>target := center\<rparr>)
       in cameraRef (zoomToFit update s) = Some (fst framed) \<and>
          controlsRef (zoomToFit update s) = Some (snd framed)))"
  by (simp add: zoomToFit_def cameraPresetEffect_def Let_def split: option.splits prod.splits)

text \<open>On the ring, with an update that leaves camera and controls alone, after the side
  preset was selected: the camera sits at \<open>(0, 0.1, 3.75)\<close> and the preset is still side.\<close>

theorem zoomToFit_same_as_front_witness:
  "cameraRef (zoomToFit Pair (ringState\<lparr>cameraPreset := Side\<rparr>)) =
     Some \<lparr>cameraPosition = Vector3 0 0.1 3.75\<rparr> \<and>
   cameraRef (cameraPresetEffect Pair (ringState\<lparr>cameraPreset := Front\<rparr>)) =
     Some \<lparr>cameraPosition = Vector3 0 0.1 3.75\<rparr> \<and>
   cameraPreset (zoomToFit Pair (ringState\<lparr>cameraPreset := Side\<rparr>)) = Side"
proof -
  have "cameraRef (zoomToFit Pair (ringState\<lparr>cameraPreset := Side\<rparr>)) =
          Some \<lparr>cameraPosition = Vector3 0 0.1 3.75\<rparr>"
    by (simp add: zoomToFit_def ringState_fields ringState_def [symmetric] mount_def Let_def
        setFromObject_def identityT_def ringMesh_def diamondMesh_def TorusGeometry_def
        OctahedronGeometry_def maxDimOf_def)
  with zoomToFit_same_as_front [of Pair "ringState\<lparr>cameraPreset := Side\<rparr>"]
  show ?thesis by simp
qed

section \<open>The custom colour text field\<close>

text \<open>
  Claim C8. The text \<open>#1A2B3C\<close> passes the six-digit pattern and is applied: it becomes
  the custom colour, the selection becomes custom, the settings carry the colour
  \<open>0x1A2B3C\<close>, and the ring's material takes them when the ring is the current model. The
  texts \<open>1A2B3C\<close> (no leading marker) and \<open>#1A2B3\<close> (one digit short) are rejected and
  leave the state, the previous custom colour with it, as it was.
\<close>

theorem custom_color_text_validation:
  "customColor (onChangeColorText ''#1A2B3C'' s) = ''#1A2B3C'' \<and>
   currentMaterial (onChangeColorText ''#1A2B3C'' s) = Custom \<and>
   settingsOf Custom (Some ''#1A2B3C'') =
     Some \<lparr>s_color = 0x1A2B3C, s_metalness = 0.9, s_roughness = 0.3, s_envMapIntensity = 0.8\<rparr> \<and>
   (currentModelRef s = defaultRingRef s \<and> ringMaterial s = Some m \<and> isMeshStandardMaterial m
      \<longrightarrow> ringMaterial (onChangeColorText ''#1A2B3C'' s) =
            Some (m\<lparr>color := 0x1A2B3C, metalness := 0.9, roughness := 0.3,
                    envMapIntensity := 0.8\<rparr>)) \<and>
   onChangeColorText ''1A2B3C'' s = s \<and>
   onChangeColorText ''#1A2B3'' s = s"
proof -
  have ok: "isHexColor ''#1A2B3C''"
    by (simp add: isHexColor_def hexDigitValue_def)
  have no_marker: "\<not> isHexColor ''1A2B3C''"
    by (simp add: isHexColor_def hexDigitValue_def)
  have short: "\<not> isHexColor ''#1A2B3''"
    by (simp add: isHexColor_def hexDigitValue_def)
  have tr: "truthy (Some ''#1A2B3C'')"
    by (simp add: truthy_def)
  have c1: "customColor (onChangeColorText ''#1A2B3C'' s) = ''#1A2B3C''"
    using ok tr by (simp add: onChangeColorText_def setMaterial_def Let_def split: option.splits)
  have c2: "currentMaterial (onChangeColorText ''#1A2B3C'' s) = Custom"
    using ok by (simp add: onChangeColorText_def setMaterial_def Let_def split: option.splits)
  have c3: "ringMaterial (onChangeColorText ''#1A2B3C'' s) =
              Some (m\<lparr>color := 0x1A2B3C, metalness := 0.9, roughness := 0.3,
                      envMapIntensity := 0.8\<rparr>)"
    if h: "currentModelRef s = defaultRingRef s" "ringMaterial s = Some m"
          "isMeshStandardMaterial m"
  proof -
    let ?s = "s\<lparr>customColor := ''#1A2B3C''\<rparr>"
    have "currentModelRef ?s = defaultRingRef ?s" using h(1) by simp
    moreover have "ringMaterial ?s = Some m" using h(2) by (simp add: ringMaterial_def cong: option.case_cong)
    ultimately have "ringMaterial (setMaterial Custom (Some ''#1A2B3C'') ?s) =
        Some (m\<lparr>color := 0x1A2B3C, metalness := 0.9, roughness := 0.3, envMapIntensity := 0.8\<rparr>)"
      using setMaterial_ring [OF _ _ h(3) settings_1A2B3C, of ?s] by simp
    then show ?thesis using ok by (simp add: onChangeColorText_def)
  qed
  have c4: "onChangeColorText ''1A2B3C'' s = s"
    using no_marker by (simp add: onChangeColorText_def)
  have c5: "onChangeColorText ''#1A2B3'' s = s"
    using short by (simp add: onChangeColorText_def)
  from c1 c2 c3 c4 c5 settings_1A2B3C show ?thesis by blast
qed

text \<open>On the ring, whose material starts as gold.\<close>

theorem custom_color_text_validation_witness:
  "currentModelRef ringState = defaultRingRef ringState \<and>
   color (the (ringMaterial ringState)) = 0xFFD700 \<and>
   isMeshStandardMaterial (the (ringMaterial ringState)) \<and>
   map_option color (ringMaterial (onChangeColorText ''#1A2B3C'' ringState)) = Some 0x1A2B3C \<and>
   customColor (onChangeColorText ''#1A2B3C'' ringState) = ''#1A2B3C'' \<and>
   customColor (onChangeColorText ''1A2B3C'' ringState) = ''#FFD700'' \<and>
   customColor (onChangeColorText ''#1A2B3'' ringState) = ''#FFD700''"
proof -
  have cc: "customColor ringState = ''#FFD700''"
    by (simp add: ringState_def loadEnvironment_onError_def mount_def createDefaultRing_def Let_def)
  have r: "currentModelRef ringState = defaultRingRef ringState"
    by (simp add: ringState_fields)
  have std: "isMeshStandardMaterial (the (ringMaterial ringState))"
    by (simp add: ringState_material isMeshStandardMaterial_def)
  from custom_color_text_validation [of ringState "the (ringMaterial ringState)"] r std cc
  show ?thesis by (simp add: ringState_material)
qed

section \<open>Screenshot capture restores the render size\<close>



section \<open>Metal selections on the procedural ring\<close>

text \<open>
  Claim C4. While the procedural ring is the current model, selecting gold, rose gold or
  platinum sets the ring's standard material to the configured colour, metalness,
  roughness and environment intensity of that metal, and leaves its other fields alone.
\<close>

theorem metal_selection_on_ring:
  assumes "type \<in> {Gold, Rosegold, Platinum}"
    and "currentModelRef s = defaultRingRef s"
    and "ringMaterial s = Some m"
    and "isMeshStandardMaterial m"
  shows "\<exists>cfg. CONFIG_materials type = Some cfg \<and>
           ringMaterial (setMaterial type col s) =
             Some (m\<lparr>color := s_color cfg, metalness := s_metalness cfg,
                     roughness := s_roughness cfg,
                     envMapIntensity := s_envMapIntensity cfg\<rparr>)"
proof -
  from assms(1) obtain cfg where cfg: "CONFIG_materials type = Some cfg" and "type \<noteq> Custom"
    by auto
  then have "settingsOf type col = Some cfg"
    by (simp add: settingsOf_def)
  from setMaterial_ring [OF assms(2) assms(3) assms(4) this] cfg show ?thesis
    by blast
qed

text \<open>Platinum on the freshly built ring: white, 0.9, 0.3, 0.7.\<close>

theorem metal_selection_on_ring_witness:
  "Platinum \<in> {Gold, Rosegold, Platinum} \<and>
   currentModelRef ringState = defaultRingRef ringState \<and>
   ringMaterial (setMaterial Platinum None ringState) =
     Some \<lparr>matClass = MeshStandardMaterial, name = [], color = 0xffffff, metalness = 0.9,
            roughness = 0.3, envMapIntensity = 0.7, envMap = None, needsUpdate = False\<rparr> \<and>
   map_option color (ringMaterial (setMaterial Rosegold None ringState)) = Some 0xB76E79 \<and>
   map_option color (ringMaterial (setMaterial Gold None ringState)) = Some 0xFFD700"
proof -
  have r: "currentModelRef ringState = defaultRingRef ringState"
    by (simp add: ringState_fields)
  have std: "isMeshStandardMaterial \<lparr>matClass = MeshStandardMaterial, name = [],
      color = 0xFFD700, metalness = 0.9, roughness = 0.3, envMapIntensity = 0.8,
      envMap = None, needsUpdate = False\<rparr>"
    by (simp add: isMeshStandardMaterial_def)
  have p: "Platinum \<in> {Gold, Rosegold, Platinum}" and rg: "Rosegold \<in> {Gold, Rosegold, Platinum}"
    and g: "Gold \<in> {Gold, Rosegold, Platinum}"
    by simp_all
  from metal_selection_on_ring [OF p r ringState_material std, of None]
       metal_selection_on_ring [OF rg r ringState_material std, of None]
       metal_selection_on_ring [OF g r ringState_material std, of None] r
  show ?thesis
    by (auto simp: CONFIG_platinum_def CONFIG_rosegold_def CONFIG_gold_def)
qed

section \<open>The sample model, loaded\<close>

lemma sampleModel_box:
  "setFromObject sampleModel = Box3 (Vector3 0 0 0) (Vector3 4 4 4)"
  by (simp add: setFromObject_def sampleModel_def sampleMesh_def identityT_def)

lemma centerAndScaleURL_sample:
  "centerAndScaleURL sampleModel =
     Inr (Object3D (Vector3 (-2) (-2) (-2)) (Vector3 0.5 0.5 0.5) None
            [sampleMesh ''Gold_Band'', sampleMesh ''Stone''])"
  by (simp add: centerAndScaleURL_def sampleModel_box maxDimOf_def scaleFactorOf_def)
     (simp add: sampleModel_def)

lemma centerAndScaleGLB_sample:
  "centerAndScaleGLB sampleModel =
     Inr (Object3D (Vector3 (-2) (-2) (-2)) (Vector3 0.5 0.5 0.5) None
            [sampleMesh ''Gold_Band'', sampleMesh ''Stone''])"
  by (simp add: centerAndScaleGLB_def sampleModel_box maxDimOf_def scaleFactorOf_def)
     (simp add: sampleModel_def)

lemma urlLoaded_eq: "loadModelFromURL_onLoad sampleModel ringState = Inr urlLoaded"
  by (simp add: urlLoaded_def loadModelFromURL_onLoad_def ringState_fields
      centerAndScaleURL_sample Let_def)

lemma fileLoaded_eq: "loadUserGLB_onLoad sampleModel ringState = Inr fileLoaded"
  by (simp add: fileLoaded_def loadUserGLB_onLoad_def ringState_fields
      centerAndScaleGLB_sample Let_def)

lemma urlLoaded_fields:
  "attached urlLoaded = [0, 1]"
  "currentModelRef urlLoaded = Some 1"
  "defaultRingRef urlLoaded = Some 0"
  "envMapRef urlLoaded = None"
  "heap urlLoaded (Suc 0) =
     Some (Object3D (Vector3 (-2) (-2) (-2)) (Vector3 0.5 0.5 0.5) None
             [sampleMesh ''Gold_Band'', sampleMesh ''Stone''])"
  by (simp_all add: urlLoaded_def loadModelFromURL_onLoad_def ringState_fields
      centerAndScaleURL_sample Let_def attached_def sceneAdd_def sceneRemove_def
      prepareMeshURL_def sampleMesh_def sampleMaterial_def isStandardOrPhysical_def)

lemma fileLoaded_fields:
  "attached fileLoaded = [1]"
  "currentModelRef fileLoaded = Some 1"
  "defaultRingRef fileLoaded = Some 0"
  "envMapRef fileLoaded = None"
  by (simp_all add: fileLoaded_def loadUserGLB_onLoad_def ringState_fields
      centerAndScaleGLB_sample Let_def attached_def sceneAdd_def sceneRemove_def)

lemma fileLoaded_heap:
  "heap fileLoaded (Suc 0) =
     Some (traverse (prepareMeshGLB None)
            (Object3D (Vector3 (-2) (-2) (-2)) (Vector3 0.5 0.5 0.5) None
             [sampleMesh ''Gold_Band'', sampleMesh ''Stone'']))"
  by (simp add: fileLoaded_def loadUserGLB_onLoad_def ringState_fields
      centerAndScaleGLB_sample Let_def)

section \<open>Reference invariants\<close>













section \<open>Reset after an external load\<close>



section \<open>Centring and scaling of loaded models\<close>

text \<open>
  Claim C1 says that after a load the bounding box of the model is centred at the origin
  with largest dimension 2. The sample model spans the box from the origin to \<open>(4, 4, 4)\<close>.
  Both loaders move it by minus the centre and then scale it by one half about its own
  origin; the box that results has largest dimension 2 but its centre is \<open>(-1, -1, -1)\<close>.
\<close>

theorem loaded_model_off_centre:
  "loadModelFromURL_onLoad sampleModel ringState = Inr urlLoaded \<and>
   currentBox urlLoaded = Some (Vector3 (-1) (-1) (-1), 2) \<and>
   loadUserGLB_onLoad sampleModel ringState = Inr fileLoaded \<and>
   currentBox fileLoaded = Some (Vector3 (-1) (-1) (-1), 2)"
proof -
  have "currentBox urlLoaded = Some (Vector3 (-1) (-1) (-1), 2)"
    by (simp add: currentBox_def urlLoaded_fields setFromObject_def identityT_def
        sampleMesh_def maxDimOf_def)
  moreover have "currentBox fileLoaded = Some (Vector3 (-1) (-1) (-1), 2)"
    by (simp add: currentBox_def fileLoaded_fields fileLoaded_heap setFromObject_def identityT_def
        sampleMesh_def maxDimOf_def prepareMeshGLB_def Let_def sampleMaterial_def
        isStandardOrPhysical_def)
  ultimately show ?thesis using urlLoaded_eq fileLoaded_eq by simp
qed

section \<open>Models attached to the scene\<close>

text \<open>
  Claim C2 says that at most one model is attached to the scene at any time. After the
  first environment load has built the ring, a model arriving from a URL is added while
  the ring stays attached: two models are attached. The same model parsed from a dropped
  file replaces the ring.
\<close>

theorem url_load_keeps_ring_attached:
  "run [EnvironmentFailed, ModelLoadedFromURL sampleModel] (mount 800 600 True) = Inr urlLoaded \<and>
   attached urlLoaded = [0, 1] \<and>
   defaultRingRef urlLoaded = Some 0 \<and> currentModelRef urlLoaded = Some 1 \<and>
   run [EnvironmentFailed, UserGLBParsed sampleModel] (mount 800 600 True) = Inr fileLoaded \<and>
   attached fileLoaded = [1]"
  using urlLoaded_eq fileLoaded_eq
  by (simp add: urlLoaded_fields fileLoaded_fields ringState_def [symmetric])

section \<open>Environment loads and the default model\<close>







section \<open>Materials of a loaded model\<close>












end
